theory Spec2Isabelle
  imports Main
begin

section \<open>Data model (drizzle schema)\<close>

text \<open>
  The session table of the schema, one record field per column. Timestamps are
  milliseconds since the epoch (\<open>int\<close>). Nullable columns are \<open>option\<close>s.
  The column \<open>updatedAt\<close> is maintained by the database alone and read by no
  operation; it is left out. The primary key \<open>id\<close> is written \<open>id'\<close>.

  Text columns that hold the output of \<open>JSON.stringify\<close> (\<open>clientOffer\<close>,
  \<open>hostAnswer\<close> and the two ICE columns) are modelled by the value that was
  serialised: \<open>JSON.parse\<close> of \<open>JSON.stringify v\<close> is \<open>v\<close>. The ICE columns
  only ever receive serialised arrays, so they hold a list of JSON values.
\<close>

datatype json =
    JNull
  | JBool bool
  | JNum int
  | JStr string
  | JArr "json list"
  | JObj "(string \<times> json) list"

datatype status = Waiting | Connecting | Connected | Disconnected | Expired

datatype role = RoleUser | RoleAdmin

record user =
  user_id :: int
  user_openId :: string
  user_name :: "string option"
  user_email :: "string option"
  user_role :: role

record session =
  id' :: int
  sessionId :: string
  passwordHash :: string
  status :: status
  hostUserId :: "int option"
  clientName :: "string option"
  clientIp :: "string option"
  hostOffer :: "string option"
  clientAnswer :: "string option"
  clientOffer :: "json option"
  hostAnswer :: "json option"
  hostIceCandidates :: "json list option"
  clientIceCandidates :: "json list option"
  startNotificationSent :: "bool option"
  endNotificationSent :: "bool option"
  autoRecord :: "bool option"
  calendarEventId :: "string option"
  calendarSource :: "string option"
  createdAt :: int
  connectedAt :: "int option"
  endedAt :: "int option"
  expiresAt :: int

datatype activityType =
    A_session_created
  | A_client_joined
  | A_host_connected
  | A_control_started
  | A_control_ended
  | A_clipboard_sync
  | A_disconnected
  | A_reconnected
  | A_session_ended
  | A_client_disconnected

record sessionLog =
  log_sessionId :: int
  log_activityType :: activityType
  log_details :: "json option"
  log_createdAt :: int

text \<open>
  The errors the handlers throw, one constructor per message:
  \<open>SessionNotFound\<close> is "Session not found", \<open>Unauthorized\<close> is "Unauthorized",
  \<open>SessionNotFoundOrUnauthorized\<close> is "Session not found or unauthorized",
  \<open>SessionExpired\<close> is "Session has expired", \<open>SessionEnded\<close> is
  "Session has ended", \<open>InvalidPassword\<close> is "Invalid password",
  \<open>InvalidApiKey\<close> is "Invalid API key", \<open>HostUserNotFound\<close> is
  "Host user not found. ...", \<open>FailedToCreateMeeting\<close> is
  "Failed to create meeting session". \<open>DuplicateEntry\<close> is the database's
  rejection of an insert that violates the unique index on \<open>sessionId\<close>.
  \<open>BadRequest\<close> is the rejection of an input that fails the procedure's
  schema, raised before the handler runs.
\<close>

datatype error =
    SessionNotFound
  | Unauthorized
  | SessionNotFoundOrUnauthorized
  | SessionExpired
  | SessionEnded
  | InvalidPassword
  | InvalidApiKey
  | HostUserNotFound
  | FailedToCreateMeeting
  | DuplicateEntry
  | BadRequest

datatype notificationType = Start | End

text \<open>
  The partial row that \<open>updateSessionSignaling\<close> receives. A field that is
  \<open>undefined\<close> (\<open>None\<close>) is not written; the ICE fields may also be written
  as \<open>null\<close> (\<open>Some None\<close>).
\<close>

record signalingData =
  set_hostOffer :: "string option"
  set_clientAnswer :: "string option"
  set_clientOffer :: "json option"
  set_hostAnswer :: "json option"
  set_hostIceCandidates :: "json list option option"
  set_clientIceCandidates :: "json list option option"
  set_clientName :: "string option"
  set_clientIp :: "string option"

text \<open>Every call of a function of the database module is recorded, in order.\<close>

datatype dbcall =
    CGetSessionBySessionId string
  | CGetUserById "int option"
  | CGetUserByEmail string
  | CCreateCalendarSession int int "string option" "string option"
  | CUpdateSessionStatus string status
  | CUpdateSessionSignaling string signalingData
  | CMarkNotificationSent string notificationType
  | CLogSessionActivity int activityType

text \<open>
  The world outside a request: whether \<open>getDb\<close> yields a connection, the user
  and session tables (sessions keyed by the unique \<open>sessionId\<close>), the next
  auto-increment key, the log table, the notifications handed to \<open>notifyOwner\<close>
  (title, content), and the database calls made so far.
\<close>

record world =
  dbUp :: bool
  users :: "user list"
  sessions :: "string \<rightharpoonup> session"
  nextId :: int
  sessionLogs :: "sessionLog list"
  notifications :: "(string \<times> string) list"
  calls :: "dbcall list"

text \<open>
  What the source takes from outside the repository: the server secret, the
  SHA-256 hex digest of the crypto library, the configured base URL, and the
  schema library's test that a string is an e-mail address.
\<close>

record env =
  cookieSecret :: string
  sha256_hex :: "string \<Rightarrow> string"
  mercuryConnectUrl :: "string option"
  isEmail :: "string \<Rightarrow> bool"

section \<open>JavaScript truthiness\<close>

definition truthy :: "bool option \<Rightarrow> bool" where
  "truthy b = (b = Some True)"

definition truthy_str :: "string option \<Rightarrow> bool" where
  "truthy_str s = (case s of None \<Rightarrow> False | Some t \<Rightarrow> t \<noteq> [])"

definition or_null :: "string option \<Rightarrow> string option" where
  "or_null s = (if truthy_str s then s else None)"

section \<open>Database module\<close>

definition called :: "dbcall \<Rightarrow> world \<Rightarrow> world" where
  "called c w = w\<lparr>calls := calls w @ [c]\<rparr>"

text \<open>\<open>db.update(sessions).set(...).where(eq(sessions.sessionId, sessionId))\<close>\<close>

definition update_row :: "string \<Rightarrow> (session \<Rightarrow> session) \<Rightarrow> world \<Rightarrow> world" where
  "update_row sid f w =
     (case sessions w sid of
        None \<Rightarrow> w
      | Some s \<Rightarrow> w\<lparr>sessions := (sessions w)(sid \<mapsto> f s)\<rparr>)"

definition hashPassword :: "env \<Rightarrow> string \<Rightarrow> string" where
  "hashPassword e password = sha256_hex e password"

definition verifyPassword :: "env \<Rightarrow> string \<Rightarrow> string \<Rightarrow> bool" where
  "verifyPassword e password hash = (hashPassword e password = hash)"

definition getUserById :: "int option \<Rightarrow> world \<Rightarrow> user option \<times> world" where
  "getUserById i w =
     (if dbUp w then find (\<lambda>u. Some (user_id u) = i) (users w) else None,
      called (CGetUserById i) w)"

definition getUserByEmail :: "string \<Rightarrow> world \<Rightarrow> user option \<times> world" where
  "getUserByEmail email w =
     (if dbUp w then find (\<lambda>u. user_email u = Some email) (users w) else None,
      called (CGetUserByEmail email) w)"

definition getSessionBySessionId :: "string \<Rightarrow> world \<Rightarrow> session option \<times> world" where
  "getSessionBySessionId sid w =
     (if dbUp w then sessions w sid else None,
      called (CGetSessionBySessionId sid) w)"

definition statusUpdateData :: "status \<Rightarrow> int \<Rightarrow> session \<Rightarrow> session" where
  "statusUpdateData st now s =
     (if st = Connected then s\<lparr>status := st, connectedAt := Some now\<rparr>
      else if st = Disconnected \<or> st = Expired then s\<lparr>status := st, endedAt := Some now\<rparr>
      else s\<lparr>status := st\<rparr>)"

definition updateSessionStatus :: "string \<Rightarrow> status \<Rightarrow> int \<Rightarrow> world \<Rightarrow> world" where
  "updateSessionStatus sid st now w =
     called (CUpdateSessionStatus sid st)
       (if \<not> dbUp w then w else update_row sid (statusUpdateData st now) w)"

definition setSignaling :: "signalingData \<Rightarrow> session \<Rightarrow> session" where
  "setSignaling d s = s\<lparr>
     hostOffer := (case set_hostOffer d of None \<Rightarrow> hostOffer s | Some v \<Rightarrow> Some v),
     clientAnswer := (case set_clientAnswer d of None \<Rightarrow> clientAnswer s | Some v \<Rightarrow> Some v),
     clientOffer := (case set_clientOffer d of None \<Rightarrow> clientOffer s | Some v \<Rightarrow> Some v),
     hostAnswer := (case set_hostAnswer d of None \<Rightarrow> hostAnswer s | Some v \<Rightarrow> Some v),
     hostIceCandidates :=
       (case set_hostIceCandidates d of None \<Rightarrow> hostIceCandidates s | Some v \<Rightarrow> v),
     clientIceCandidates :=
       (case set_clientIceCandidates d of None \<Rightarrow> clientIceCandidates s | Some v \<Rightarrow> v),
     clientName := (case set_clientName d of None \<Rightarrow> clientName s | Some v \<Rightarrow> Some v),
     clientIp := (case set_clientIp d of None \<Rightarrow> clientIp s | Some v \<Rightarrow> Some v)\<rparr>"

definition updateSessionSignaling :: "string \<Rightarrow> signalingData \<Rightarrow> world \<Rightarrow> world" where
  "updateSessionSignaling sid d w =
     called (CUpdateSessionSignaling sid d)
       (if \<not> dbUp w then w else update_row sid (setSignaling d) w)"

definition setNotificationSent :: "notificationType \<Rightarrow> session \<Rightarrow> session" where
  "setNotificationSent t s =
     (if t = Start then s\<lparr>startNotificationSent := Some True\<rparr>
      else s\<lparr>endNotificationSent := Some True\<rparr>)"

definition markNotificationSent :: "string \<Rightarrow> notificationType \<Rightarrow> world \<Rightarrow> world" where
  "markNotificationSent sid t w =
     called (CMarkNotificationSent sid t)
       (if \<not> dbUp w then w else update_row sid (setNotificationSent t) w)"

definition logSessionActivity ::
  "int \<Rightarrow> activityType \<Rightarrow> (string \<times> json) list \<Rightarrow> int \<Rightarrow> world \<Rightarrow> world" where
  "logSessionActivity sid act details now w =
     called (CLogSessionActivity sid act)
       (if \<not> dbUp w then w
        else w\<lparr>sessionLogs := sessionLogs w @
               [\<lparr>log_sessionId = sid, log_activityType = act,
                 log_details = Some (JObj details), log_createdAt = now\<rparr>]\<rparr>)"

text \<open>
  \<open>createCalendarSession\<close>. The identifier and the password come from
  \<open>crypto.randomBytes\<close>; they are inputs here. The insert is refused when the
  identifier is already in the table (unique index). The minutes are taken to
  be a whole number.
\<close>

definition createCalendarSession ::
  "env \<Rightarrow> int \<Rightarrow> int \<Rightarrow> string option \<Rightarrow> string option \<Rightarrow> int \<Rightarrow> string \<Rightarrow> string \<Rightarrow> world
     \<Rightarrow> (error + (session \<times> string) option) \<times> world" where
  "createCalendarSession e hostId expiresInMinutes evId evSrc now sid password w =
     (let w0 = called (CCreateCalendarSession hostId expiresInMinutes evId evSrc) w in
      if \<not> dbUp w0 then (Inr None, w0)
      else if sessions w0 sid \<noteq> None then (Inl DuplicateEntry, w0)
      else
        let row = \<lparr>id' = nextId w0, sessionId = sid,
                   passwordHash = hashPassword e password, status = Waiting,
                   hostUserId = Some hostId, clientName = None, clientIp = None,
                   hostOffer = None, clientAnswer = None, clientOffer = None,
                   hostAnswer = None, hostIceCandidates = None,
                   clientIceCandidates = None, startNotificationSent = Some False,
                   endNotificationSent = Some False, autoRecord = Some False,
                   calendarEventId = or_null evId, calendarSource = or_null evSrc,
                   createdAt = now, connectedAt = None, endedAt = None,
                   expiresAt = now + expiresInMinutes * 60 * 1000\<rparr>;
            w1 = w0\<lparr>sessions := (sessions w0)(sid \<mapsto> row), nextId := nextId w0 + 1\<rparr>
        in case sessions w1 sid of
             None \<Rightarrow> (Inr None, w1)
           | Some r \<Rightarrow>
               (Inr (Some (r, password)),
                logSessionActivity (id' r) A_session_created
                  ([(''hostUserId'', JNum hostId)]
                   @ (case evId of None \<Rightarrow> [] | Some v \<Rightarrow> [(''calendarEventId'', JStr v)])
                   @ (case evSrc of None \<Rightarrow> [] | Some v \<Rightarrow> [(''calendarSource'', JStr v)]))
                  now w1))"

text \<open>\<open>notifyOwner\<close> (outside the repository): the dispatch is recorded.\<close>

definition notifyOwner :: "string \<Rightarrow> string \<Rightarrow> world \<Rightarrow> world" where
  "notifyOwner title content w = w\<lparr>notifications := notifications w @ [(title, content)]\<rparr>"

section \<open>Request context and results\<close>

text \<open>
  A public procedure sees the request context: the authenticated user, if any,
  the \<open>x-forwarded-for\<close> header and the socket's remote address. A protected
  procedure runs only with a user; its handler is given \<open>ctx.user.id\<close>.
\<close>

record ctx =
  ctx_user :: "user option"
  xForwardedFor :: "string option"
  remoteAddress :: "string option"

datatype side = Host | Client

datatype successResult = SuccessTrue

record joinResult =
  join_success :: bool
  join_sessionId :: string
  join_hostOffer :: "string option"

record signalingResult =
  sd_status :: status
  sd_hostOffer :: "string option"
  sd_clientAnswer :: "string option"
  sd_hostIceCandidates :: "json list option"
  sd_clientIceCandidates :: "json list option"
  sd_clientName :: "string option"
  sd_autoRecord :: "bool option"

record offerResult =
  go_offer :: "json option"
  go_iceCandidates :: "json list option"
  go_clientName :: "string option"

record answerResult =
  ga_answer :: "json option"
  ga_iceCandidates :: "json list option"

record meetingResult =
  cm_success :: bool
  cm_sessionId :: string
  cm_password :: string
  cm_joinUrl :: string
  cm_hostUrl :: string
  cm_expiresAt :: int

definition noData :: signalingData where
  "noData = \<lparr>set_hostOffer = None, set_clientAnswer = None, set_clientOffer = None,
             set_hostAnswer = None, set_hostIceCandidates = None,
             set_clientIceCandidates = None, set_clientName = None, set_clientIp = None\<rparr>"

text \<open>\<open>ctx.user?.id !== session.hostUserId\<close>: \<open>undefined\<close> differs from \<open>null\<close> too.\<close>

definition userIsNotHost :: "ctx \<Rightarrow> session \<Rightarrow> bool" where
  "userIsNotHost c s =
     (case ctx_user c of
        None \<Rightarrow> True
      | Some u \<Rightarrow> hostUserId s \<noteq> Some (user_id u))"

text \<open>\<open>headers['x-forwarded-for'] || socket?.remoteAddress || 'unknown'\<close>\<close>

definition requestClientIp :: "ctx \<Rightarrow> string" where
  "requestClientIp c =
     (if truthy_str (xForwardedFor c) then the (xForwardedFor c)
      else if truthy_str (remoteAddress c) then the (remoteAddress c)
      else ''unknown'')"

text \<open>\<open>clientIp.split(',')[0]\<close>\<close>

definition firstOfSplit :: "string \<Rightarrow> string" where
  "firstOfSplit s = takeWhile (\<lambda>c. c \<noteq> CHR '','') s"

section \<open>Router: session\<close>

definition session_get :: "int \<Rightarrow> string \<Rightarrow> world \<Rightarrow> (error + session) \<times> world" where
  "session_get uid sid w =
     (let (r, w1) = getSessionBySessionId sid w in
      case r of
        None \<Rightarrow> (Inl SessionNotFound, w1)
      | Some session \<Rightarrow>
          if hostUserId session \<noteq> Some uid then (Inl Unauthorized, w1)
          else (Inr session, w1))"

definition session_end :: "int \<Rightarrow> int \<Rightarrow> string \<Rightarrow> world \<Rightarrow> (error + successResult) \<times> world" where
  "session_end uid now sid w =
     (let (r, w1) = getSessionBySessionId sid w in
      case r of
        None \<Rightarrow> (Inl SessionNotFoundOrUnauthorized, w1)
      | Some session \<Rightarrow>
          if hostUserId session \<noteq> Some uid then (Inl SessionNotFoundOrUnauthorized, w1)
          else
            let w2 = updateSessionStatus sid Disconnected now w1;
                w3 = logSessionActivity (id' session) A_session_ended
                       [(''endedBy'', JStr ''host'')] now w2;
                w4 = (if \<not> truthy (endNotificationSent session)
                      then markNotificationSent sid End
                             (notifyOwner ''Remote Session Ended''
                                (''Session '' @ sid @ '' has been ended by the host.'') w3)
                      else w3)
            in (Inr SuccessTrue, w4))"

section \<open>Router: signaling\<close>

definition signaling_join ::
  "env \<Rightarrow> ctx \<Rightarrow> int \<Rightarrow> string \<Rightarrow> string \<Rightarrow> string option \<Rightarrow> world
     \<Rightarrow> (error + joinResult) \<times> world" where
  "signaling_join e c now sid password name w =
     (let (r, w1) = getSessionBySessionId sid w in
      case r of
        None \<Rightarrow> (Inl SessionNotFound, w1)
      | Some session \<Rightarrow>
          if status session = Expired \<or> expiresAt session < now then (Inl SessionExpired, w1)
          else if status session = Disconnected then (Inl SessionEnded, w1)
          else if \<not> verifyPassword e password (passwordHash session)
            then (Inl InvalidPassword, w1)
          else
            let ip = requestClientIp c;
                w2 = updateSessionSignaling sid
                       (noData\<lparr>set_clientName := name, set_clientIp := Some (firstOfSplit ip)\<rparr>)
                       w1;
                w3 = logSessionActivity (id' session) A_client_joined
                       ((case name of None \<Rightarrow> [] | Some n \<Rightarrow> [(''clientName'', JStr n)])
                        @ [(''clientIp'', JStr ip)]) now w2;
                w4 = (if \<not> truthy (startNotificationSent session)
                      then
                        let (host, w5) = getUserById (hostUserId session) w3;
                            w6 = notifyOwner ''New Remote Session Started''
                                   (''Client '' @ [CHR 0x22]
                                    @ (if truthy_str name then the name else ''Unknown'')
                                    @ [CHR 0x22] @ '' has joined session '' @ sid
                                    @ ''. IP: '' @ ip) w5
                        in markNotificationSent sid Start w6
                      else w3)
            in (Inr \<lparr>join_success = True, join_sessionId = sessionId session,
                      join_hostOffer = hostOffer session\<rparr>, w4))"

definition signaling_sendOffer ::
  "int \<Rightarrow> string \<Rightarrow> string \<Rightarrow> world \<Rightarrow> (error + successResult) \<times> world" where
  "signaling_sendOffer uid sid offer w =
     (let (r, w1) = getSessionBySessionId sid w in
      case r of
        None \<Rightarrow> (Inl SessionNotFoundOrUnauthorized, w1)
      | Some session \<Rightarrow>
          if hostUserId session \<noteq> Some uid then (Inl SessionNotFoundOrUnauthorized, w1)
          else (Inr SuccessTrue,
                updateSessionSignaling sid (noData\<lparr>set_hostOffer := Some offer\<rparr>) w1))"

definition signaling_sendAnswer ::
  "env \<Rightarrow> int \<Rightarrow> string \<Rightarrow> string \<Rightarrow> string \<Rightarrow> world \<Rightarrow> (error + successResult) \<times> world" where
  "signaling_sendAnswer e now sid password answer w =
     (let (r, w1) = getSessionBySessionId sid w in
      case r of
        None \<Rightarrow> (Inl SessionNotFound, w1)
      | Some session \<Rightarrow>
          if \<not> verifyPassword e password (passwordHash session)
            then (Inl InvalidPassword, w1)
          else
            let w2 = updateSessionSignaling sid (noData\<lparr>set_clientAnswer := Some answer\<rparr>) w1;
                w3 = updateSessionStatus sid Connected now w2;
                w4 = logSessionActivity (id' session) A_host_connected [] now w3
            in (Inr SuccessTrue, w4))"

definition signaling_sendIceCandidate ::
  "env \<Rightarrow> ctx \<Rightarrow> string \<Rightarrow> string option \<Rightarrow> string \<Rightarrow> side \<Rightarrow> world
     \<Rightarrow> (error + successResult) \<times> world" where
  "signaling_sendIceCandidate e c sid password candidate from w =
     (let (r, w1) = getSessionBySessionId sid w in
      case r of
        None \<Rightarrow> (Inl SessionNotFound, w1)
      | Some session \<Rightarrow>
          if from = Client \<and> truthy_str password
             \<and> \<not> verifyPassword e (the password) (passwordHash session)
            then (Inl InvalidPassword, w1)
          else if from = Host \<and> userIsNotHost c session then (Inl Unauthorized, w1)
          else
            let field = (if from = Host then hostIceCandidates session
                         else clientIceCandidates session);
                existing = (case field of None \<Rightarrow> [] | Some xs \<Rightarrow> xs) @ [JStr candidate]
            in (Inr SuccessTrue,
                updateSessionSignaling sid
                  (if from = Host then noData\<lparr>set_hostIceCandidates := Some (Some existing)\<rparr>
                   else noData\<lparr>set_clientIceCandidates := Some (Some existing)\<rparr>) w1))"

definition signaling_getSignalingData ::
  "env \<Rightarrow> ctx \<Rightarrow> string \<Rightarrow> string option \<Rightarrow> side \<Rightarrow> world
     \<Rightarrow> (error + signalingResult) \<times> world" where
  "signaling_getSignalingData e c sid password role w =
     (let (r, w1) = getSessionBySessionId sid w in
      case r of
        None \<Rightarrow> (Inl SessionNotFound, w1)
      | Some session \<Rightarrow>
          if role = Client \<and> truthy_str password
             \<and> \<not> verifyPassword e (the password) (passwordHash session)
            then (Inl InvalidPassword, w1)
          else if role = Host \<and> userIsNotHost c session then (Inl Unauthorized, w1)
          else
            (Inr \<lparr>sd_status = status session,
                   sd_hostOffer = (if role = Client then hostOffer session else None),
                   sd_clientAnswer = (if role = Host then clientAnswer session else None),
                   sd_hostIceCandidates =
                     (if role = Client then hostIceCandidates session else None),
                   sd_clientIceCandidates =
                     (if role = Host then clientIceCandidates session else None),
                   sd_clientName = clientName session,
                   sd_autoRecord = autoRecord session\<rparr>, w1))"

text \<open>
  \<open>offer\<close> is \<open>z.any()\<close>: \<open>None\<close> is an absent offer, whose
  \<open>JSON.stringify\<close> is \<open>undefined\<close> and is not written. An array, also an
  empty one, is truthy.
\<close>

definition signaling_sendOfferFromClient ::
  "int \<Rightarrow> string \<Rightarrow> json option \<Rightarrow> json list option \<Rightarrow> world
     \<Rightarrow> (error + successResult) \<times> world" where
  "signaling_sendOfferFromClient now sid offer iceCandidates w =
     (let (r, w1) = getSessionBySessionId sid w in
      case r of
        None \<Rightarrow> (Inl SessionNotFound, w1)
      | Some session \<Rightarrow>
          let w2 = updateSessionSignaling sid
                     (noData\<lparr>set_clientOffer := offer,
                             set_clientIceCandidates := Some iceCandidates\<rparr>) w1;
              w3 = updateSessionStatus sid Connecting now w2
          in (Inr SuccessTrue, w3))"

definition signaling_sendAnswerFromHost ::
  "int \<Rightarrow> int \<Rightarrow> string \<Rightarrow> json option \<Rightarrow> json list option \<Rightarrow> world
     \<Rightarrow> (error + successResult) \<times> world" where
  "signaling_sendAnswerFromHost uid now sid answer iceCandidates w =
     (let (r, w1) = getSessionBySessionId sid w in
      case r of
        None \<Rightarrow> (Inl SessionNotFoundOrUnauthorized, w1)
      | Some session \<Rightarrow>
          if hostUserId session \<noteq> Some uid then (Inl SessionNotFoundOrUnauthorized, w1)
          else
            let w2 = updateSessionSignaling sid
                       (noData\<lparr>set_hostAnswer := answer,
                               set_hostIceCandidates := Some iceCandidates\<rparr>) w1;
                w3 = updateSessionStatus sid Connected now w2
            in (Inr SuccessTrue, w3))"

definition signaling_getAnswer :: "string \<Rightarrow> world \<Rightarrow> (error + answerResult) \<times> world" where
  "signaling_getAnswer sid w =
     (let (r, w1) = getSessionBySessionId sid w in
      case r of
        None \<Rightarrow> (Inl SessionNotFound, w1)
      | Some session \<Rightarrow>
          (case hostAnswer session of
             None \<Rightarrow> (Inr \<lparr>ga_answer = None, ga_iceCandidates = None\<rparr>, w1)
           | Some a \<Rightarrow>
               (Inr \<lparr>ga_answer = Some a,
                      ga_iceCandidates =
                        Some (case hostIceCandidates session of None \<Rightarrow> [] | Some xs \<Rightarrow> xs)\<rparr>,
                w1)))"

definition signaling_getOffer :: "int \<Rightarrow> string \<Rightarrow> world \<Rightarrow> (error + offerResult) \<times> world" where
  "signaling_getOffer uid sid w =
     (let (r, w1) = getSessionBySessionId sid w in
      case r of
        None \<Rightarrow> (Inl SessionNotFoundOrUnauthorized, w1)
      | Some session \<Rightarrow>
          if hostUserId session \<noteq> Some uid then (Inl SessionNotFoundOrUnauthorized, w1)
          else
            (case clientOffer session of
               None \<Rightarrow>
                 (Inr \<lparr>go_offer = None, go_iceCandidates = None,
                        go_clientName = clientName session\<rparr>, w1)
             | Some off \<Rightarrow>
                 (Inr \<lparr>go_offer = Some off,
                        go_iceCandidates =
                          Some (case clientIceCandidates session of None \<Rightarrow> [] | Some xs \<Rightarrow> xs),
                        go_clientName = clientName session\<rparr>, w1)))"

definition signaling_clientDisconnect ::
  "int \<Rightarrow> string \<Rightarrow> world \<Rightarrow> (error + successResult) \<times> world" where
  "signaling_clientDisconnect now sid w =
     (let (r, w1) = getSessionBySessionId sid w in
      case r of
        None \<Rightarrow> (Inl SessionNotFound, w1)
      | Some session \<Rightarrow>
          let w2 = updateSessionStatus sid Disconnected now w1;
              w3 = logSessionActivity (id' session) A_client_disconnected [] now w2;
              w4 = (if \<not> truthy (endNotificationSent session)
                    then markNotificationSent sid End
                           (notifyOwner ''Remote Session Ended''
                              (''Client disconnected from session '' @ sid @ ''.'') w3)
                    else w3)
          in (Inr SuccessTrue, w4))"

text \<open>
  The input's \<open>status\<close> is \<open>z.enum(['connected', 'disconnected'])\<close>: the flag
  \<open>disconnected\<close> is \<open>True\<close> for \<open>'disconnected'\<close>. The optional password of the
  input and the context are accepted and never read.
\<close>

definition signaling_updateStatus ::
  "ctx \<Rightarrow> int \<Rightarrow> string \<Rightarrow> string option \<Rightarrow> bool \<Rightarrow> world
     \<Rightarrow> (error + successResult) \<times> world" where
  "signaling_updateStatus c now sid password disconnected w =
     (let (r, w1) = getSessionBySessionId sid w in
      case r of
        None \<Rightarrow> (Inl SessionNotFound, w1)
      | Some session \<Rightarrow>
          let w2 = updateSessionStatus sid (if disconnected then Disconnected else Connected)
                     now w1
          in if disconnected
             then
               let w3 = logSessionActivity (id' session) A_disconnected [] now w2;
                   w4 = (if \<not> truthy (endNotificationSent session)
                         then markNotificationSent sid End
                                (notifyOwner ''Remote Session Ended''
                                   (''Session '' @ sid @ '' has been disconnected.'') w3)
                         else w3)
               in (Inr SuccessTrue, w4)
             else (Inr SuccessTrue, w2))"

section \<open>Router: calendar\<close>

definition getCalendarApiKey :: "env \<Rightarrow> string" where
  "getCalendarApiKey e = take 32 (sha256_hex e (''calendar-api-'' @ cookieSecret e))"

definition baseUrl :: "env \<Rightarrow> string" where
  "baseUrl e =
     (if truthy_str (mercuryConnectUrl e) then the (mercuryConnectUrl e)
      else ''https://connect.mercuryholdings.co'')"

text \<open>
  The input schema of \<open>calendar.createMeeting\<close>: \<open>hostEmail\<close> is
  \<open>z.string().email()\<close> and \<open>expiresInMinutes\<close> is
  \<open>z.number().min(5).max(1440).default(120)\<close>; the other fields are plain or
  optional strings. An absent \<open>expiresInMinutes\<close> is \<open>None\<close>.
\<close>

definition expiresInMinutesOrDefault :: "int option \<Rightarrow> int" where
  "expiresInMinutesOrDefault m = (case m of None \<Rightarrow> 120 | Some v \<Rightarrow> v)"

definition createMeetingInputOk :: "env \<Rightarrow> string \<Rightarrow> int option \<Rightarrow> bool" where
  "createMeetingInputOk e hostEmail m =
     (isEmail e hostEmail
      \<and> 5 \<le> expiresInMinutesOrDefault m \<and> expiresInMinutesOrDefault m \<le> 1440)"

definition calendar_createMeeting ::
  "env \<Rightarrow> int \<Rightarrow> string \<Rightarrow> string \<Rightarrow> string \<Rightarrow> string \<Rightarrow> int option \<Rightarrow> string option
     \<Rightarrow> string option \<Rightarrow> world \<Rightarrow> (error + meetingResult) \<times> world" where
  "calendar_createMeeting e now newId newPassword apiKey hostEmail minutes evId evSrc w =
     (if \<not> createMeetingInputOk e hostEmail minutes then (Inl BadRequest, w)
      else if apiKey \<noteq> getCalendarApiKey e then (Inl InvalidApiKey, w)
      else
        let expiresInMinutes = expiresInMinutesOrDefault minutes;
            (h, w1) = getUserByEmail hostEmail w in
        case h of
          None \<Rightarrow> (Inl HostUserNotFound, w1)
        | Some host \<Rightarrow>
            let (res, w2) = createCalendarSession e (user_id host) expiresInMinutes evId evSrc
                              now newId newPassword w1
            in (case res of
                  Inl err \<Rightarrow> (Inl err, w2)
                | Inr None \<Rightarrow> (Inl FailedToCreateMeeting, w2)
                | Inr (Some (session, password)) \<Rightarrow>
                    (Inr \<lparr>cm_success = True,
                           cm_sessionId = sessionId session,
                           cm_password = password,
                           cm_joinUrl = (baseUrl e @ ''/join/'' @ sessionId session
                                         @ ''?p='' @ password),
                           cm_hostUrl = (baseUrl e @ ''/viewer/'' @ sessionId session),
                           cm_expiresAt = expiresAt session\<rparr>, w2)))"

section \<open>Sequences of requests\<close>

text \<open>
  One constructor per state-changing procedure of the session and signaling
  routers, with the arguments of its handler.
\<close>

datatype request =
    ReqJoin ctx int string string "string option"
  | ReqSendOffer int string string
  | ReqSendAnswer int string string string
  | ReqSendIceCandidate ctx string "string option" string side
  | ReqSendOfferFromClient int string "json option" "json list option"
  | ReqSendAnswerFromHost int int string "json option" "json list option"
  | ReqClientDisconnect int string
  | ReqUpdateStatus ctx int string "string option" bool
  | ReqEnd int int string

fun exec :: "env \<Rightarrow> request \<Rightarrow> world \<Rightarrow> world" where
  "exec e (ReqJoin c now sid password name) w = snd (signaling_join e c now sid password name w)"
| "exec e (ReqSendOffer uid sid offer) w = snd (signaling_sendOffer uid sid offer w)"
| "exec e (ReqSendAnswer now sid password answer) w =
     snd (signaling_sendAnswer e now sid password answer w)"
| "exec e (ReqSendIceCandidate c sid password candidate from) w =
     snd (signaling_sendIceCandidate e c sid password candidate from w)"
| "exec e (ReqSendOfferFromClient now sid offer ice) w =
     snd (signaling_sendOfferFromClient now sid offer ice w)"
| "exec e (ReqSendAnswerFromHost uid now sid answer ice) w =
     snd (signaling_sendAnswerFromHost uid now sid answer ice w)"
| "exec e (ReqClientDisconnect now sid) w = snd (signaling_clientDisconnect now sid w)"
| "exec e (ReqUpdateStatus c now sid password disconnected) w =
     snd (signaling_updateStatus c now sid password disconnected w)"
| "exec e (ReqEnd uid now sid) w = snd (session_end uid now sid w)"




text \<open>The session a request names.\<close>

fun reqSid :: "request \<Rightarrow> string" where
  "reqSid (ReqJoin c now sid password name) = sid"
| "reqSid (ReqSendOffer uid sid offer) = sid"
| "reqSid (ReqSendAnswer now sid password answer) = sid"
| "reqSid (ReqSendIceCandidate c sid password candidate from) = sid"
| "reqSid (ReqSendOfferFromClient now sid offer ice) = sid"
| "reqSid (ReqSendAnswerFromHost uid now sid answer ice) = sid"
| "reqSid (ReqClientDisconnect now sid) = sid"
| "reqSid (ReqUpdateStatus c now sid password disconnected) = sid"
| "reqSid (ReqEnd uid now sid) = sid"

text \<open>Whether the handler of a request returns its result rather than throws.\<close>

fun succeeded :: "env \<Rightarrow> request \<Rightarrow> world \<Rightarrow> bool" where
  "succeeded e (ReqJoin c now sid password name) w =
     (\<not> isl (fst (signaling_join e c now sid password name w)))"
| "succeeded e (ReqSendOffer uid sid offer) w = (\<not> isl (fst (signaling_sendOffer uid sid offer w)))"
| "succeeded e (ReqSendAnswer now sid password answer) w =
     (\<not> isl (fst (signaling_sendAnswer e now sid password answer w)))"
| "succeeded e (ReqSendIceCandidate c sid password candidate from) w =
     (\<not> isl (fst (signaling_sendIceCandidate e c sid password candidate from w)))"
| "succeeded e (ReqSendOfferFromClient now sid offer ice) w =
     (\<not> isl (fst (signaling_sendOfferFromClient now sid offer ice w)))"
| "succeeded e (ReqSendAnswerFromHost uid now sid answer ice) w =
     (\<not> isl (fst (signaling_sendAnswerFromHost uid now sid answer ice w)))"
| "succeeded e (ReqClientDisconnect now sid) w =
     (\<not> isl (fst (signaling_clientDisconnect now sid w)))"
| "succeeded e (ReqUpdateStatus c now sid password disconnected) w =
     (\<not> isl (fst (signaling_updateStatus c now sid password disconnected w)))"
| "succeeded e (ReqEnd uid now sid) w = (\<not> isl (fst (session_end uid now sid w)))"



text \<open>
  The requests whose handlers write the client's ICE column
  (\<open>sendIceCandidate\<close> from the client, \<open>sendOfferFromClient\<close>), and those whose
  handlers write the host's (\<open>sendIceCandidate\<close> from the host,
  \<open>sendAnswerFromHost\<close>).
\<close>

fun writesClientIce :: "request \<Rightarrow> bool" where
  "writesClientIce (ReqSendIceCandidate c sid password candidate from) = (from = Client)"
| "writesClientIce (ReqSendOfferFromClient now sid offer ice) = True"
| "writesClientIce r = False"

fun writesHostIce :: "request \<Rightarrow> bool" where
  "writesHostIce (ReqSendIceCandidate c sid password candidate from) = (from = Host)"
| "writesHostIce (ReqSendAnswerFromHost uid now sid answer ice) = True"
| "writesHostIce r = False"

definition iceList :: "json list option \<Rightarrow> json list" where
  "iceList field = (case field of None \<Rightarrow> [] | Some xs \<Rightarrow> xs)"

definition countCalls :: "dbcall \<Rightarrow> world \<Rightarrow> nat" where
  "countCalls c w = length (filter (\<lambda>x. x = c) (calls w))"

section \<open>A concrete world\<close>

text \<open>
  One host (user 7), one session of that host created at time 0 that expires
  at time 1000, with password \<open>CAFE0001\<close>. The digest is a stand-in that marks
  its argument, and the e-mail test a stand-in that looks for \<open>@\<close>.
\<close>

definition exEnv :: env where
  "exEnv = \<lparr>cookieSecret = ''secret'', sha256_hex = (\<lambda>s. ''#'' @ s),
            mercuryConnectUrl = None, isEmail = (\<lambda>s. CHR ''@'' \<in> set s)\<rparr>"

definition exHost :: user where
  "exHost = \<lparr>user_id = 7, user_openId = ''ops_7'', user_name = Some ''Host'',
             user_email = Some ''host@example.com'', user_role = RoleAdmin\<rparr>"

definition exSession :: session where
  "exSession = \<lparr>id' = 1, sessionId = ''a1b2c3'', passwordHash = ''#CAFE0001'',
                status = Waiting, hostUserId = Some 7, clientName = None, clientIp = None,
                hostOffer = Some ''OFFER1'', clientAnswer = Some ''ANSWER1'',
                clientOffer = None, hostAnswer = None,
                hostIceCandidates = Some [JStr ''h1''],
                clientIceCandidates = Some [JStr ''c1''],
                startNotificationSent = Some False, endNotificationSent = Some False,
                autoRecord = Some False, calendarEventId = None, calendarSource = None,
                createdAt = 0, connectedAt = None, endedAt = None, expiresAt = 1000\<rparr>"

definition exWorld :: world where
  "exWorld = \<lparr>dbUp = True, users = [exHost],
              sessions = [''a1b2c3'' \<mapsto> exSession], nextId = 2,
              sessionLogs = [], notifications = [], calls = []\<rparr>"

definition exCtx :: ctx where
  "exCtx = \<lparr>ctx_user = None, xForwardedFor = Some ''10.0.0.1, 10.0.0.2'',
            remoteAddress = Some ''127.0.0.1''\<rparr>"

definition exHostCtx :: ctx where
  "exHostCtx = \<lparr>ctx_user = Some exHost, xForwardedFor = None,
                remoteAddress = Some ''127.0.0.1''\<rparr>"

text \<open>The same world after the session was ended once (status and flag set).\<close>

definition exEndedWorld :: world where
  "exEndedWorld = exWorld\<lparr>sessions :=
     [''a1b2c3'' \<mapsto> exSession\<lparr>status := Disconnected, endedAt := Some 500,
                                  endNotificationSent := Some True\<rparr>]\<rparr>"

section \<open>What each database function changes\<close>

lemma called_fields [simp]:
  "dbUp (called c w) = dbUp w"
  "users (called c w) = users w"
  "sessions (called c w) = sessions w"
  "nextId (called c w) = nextId w"
  "sessionLogs (called c w) = sessionLogs w"
  "notifications (called c w) = notifications w"
  "calls (called c w) = calls w @ [c]"
  by (simp_all add: called_def)

lemma update_row_fields [simp]:
  "dbUp (update_row sid f w) = dbUp w"
  "users (update_row sid f w) = users w"
  "nextId (update_row sid f w) = nextId w"
  "sessionLogs (update_row sid f w) = sessionLogs w"
  "notifications (update_row sid f w) = notifications w"
  "calls (update_row sid f w) = calls w"
  by (simp_all add: update_row_def split: option.splits)

lemma update_row_sessions:
  "sessions (update_row sid f w) =
     (case sessions w sid of None \<Rightarrow> sessions w | Some s \<Rightarrow> (sessions w)(sid \<mapsto> f s))"
  by (simp add: update_row_def split: option.splits)

lemma update_row_lookup [simp]:
  "sessions (update_row sid f w) k =
     (if k = sid then map_option f (sessions w sid) else sessions w k)"
  by (simp add: update_row_def split: option.splits)

lemma notifyOwner_fields [simp]:
  "dbUp (notifyOwner t c w) = dbUp w"
  "users (notifyOwner t c w) = users w"
  "sessions (notifyOwner t c w) = sessions w"
  "nextId (notifyOwner t c w) = nextId w"
  "sessionLogs (notifyOwner t c w) = sessionLogs w"
  "notifications (notifyOwner t c w) = notifications w @ [(t, c)]"
  "calls (notifyOwner t c w) = calls w"
  by (simp_all add: notifyOwner_def)

lemma logSessionActivity_fields [simp]:
  "dbUp (logSessionActivity i a d now w) = dbUp w"
  "users (logSessionActivity i a d now w) = users w"
  "sessions (logSessionActivity i a d now w) = sessions w"
  "nextId (logSessionActivity i a d now w) = nextId w"
  "notifications (logSessionActivity i a d now w) = notifications w"
  "calls (logSessionActivity i a d now w) = calls w @ [CLogSessionActivity i a]"
  by (simp_all add: logSessionActivity_def)

lemma logSessionActivity_logs [simp]:
  "sessionLogs (logSessionActivity i a d now w) =
     (if dbUp w
      then sessionLogs w @ [\<lparr>log_sessionId = i, log_activityType = a,
                              log_details = Some (JObj d), log_createdAt = now\<rparr>]
      else sessionLogs w)"
  by (simp add: logSessionActivity_def)

lemma updateSessionStatus_fields [simp]:
  "dbUp (updateSessionStatus sid st now w) = dbUp w"
  "users (updateSessionStatus sid st now w) = users w"
  "nextId (updateSessionStatus sid st now w) = nextId w"
  "sessionLogs (updateSessionStatus sid st now w) = sessionLogs w"
  "notifications (updateSessionStatus sid st now w) = notifications w"
  "calls (updateSessionStatus sid st now w) = calls w @ [CUpdateSessionStatus sid st]"
  by (simp_all add: updateSessionStatus_def)

lemma updateSessionStatus_lookup [simp]:
  "sessions (updateSessionStatus sid st now w) k =
     (if dbUp w \<and> k = sid then map_option (statusUpdateData st now) (sessions w sid)
      else sessions w k)"
  by (simp add: updateSessionStatus_def)

lemma updateSessionSignaling_fields [simp]:
  "dbUp (updateSessionSignaling sid d w) = dbUp w"
  "users (updateSessionSignaling sid d w) = users w"
  "nextId (updateSessionSignaling sid d w) = nextId w"
  "sessionLogs (updateSessionSignaling sid d w) = sessionLogs w"
  "notifications (updateSessionSignaling sid d w) = notifications w"
  "calls (updateSessionSignaling sid d w) = calls w @ [CUpdateSessionSignaling sid d]"
  by (simp_all add: updateSessionSignaling_def)

lemma updateSessionSignaling_lookup [simp]:
  "sessions (updateSessionSignaling sid d w) k =
     (if dbUp w \<and> k = sid then map_option (setSignaling d) (sessions w sid)
      else sessions w k)"
  by (simp add: updateSessionSignaling_def)

lemma markNotificationSent_fields [simp]:
  "dbUp (markNotificationSent sid t w) = dbUp w"
  "users (markNotificationSent sid t w) = users w"
  "nextId (markNotificationSent sid t w) = nextId w"
  "sessionLogs (markNotificationSent sid t w) = sessionLogs w"
  "notifications (markNotificationSent sid t w) = notifications w"
  "calls (markNotificationSent sid t w) = calls w @ [CMarkNotificationSent sid t]"
  by (simp_all add: markNotificationSent_def)

lemma markNotificationSent_lookup [simp]:
  "sessions (markNotificationSent sid t w) k =
     (if dbUp w \<and> k = sid then map_option (setNotificationSent t) (sessions w sid)
      else sessions w k)"
  by (simp add: markNotificationSent_def)

lemma getSessionBySessionId_simp [simp]:
  "getSessionBySessionId sid w =
     (if dbUp w then sessions w sid else None, called (CGetSessionBySessionId sid) w)"
  by (simp add: getSessionBySessionId_def)

lemma getUserById_snd [simp]: "snd (getUserById i w) = called (CGetUserById i) w"
  by (simp add: getUserById_def)

lemma status_fields [simp]:
  "status (statusUpdateData st now s) = st"
  "status (setSignaling d s) = status s"
  "status (setNotificationSent t s) = status s"
  by (simp_all add: statusUpdateData_def setSignaling_def setNotificationSent_def)

lemma end_fields [simp]:
  "hostUserId (statusUpdateData st now s) = hostUserId s"
  "endNotificationSent (statusUpdateData st now s) = endNotificationSent s"
  "hostUserId (setNotificationSent t s) = hostUserId s"
  "endNotificationSent (setNotificationSent End s) = Some True"
  by (simp_all add: statusUpdateData_def setNotificationSent_def)

lemma getUserByEmail_simp [simp]:
  "getUserByEmail email w =
     (if dbUp w then find (\<lambda>u. user_email u = Some email) (users w) else None,
      called (CGetUserByEmail email) w)"
  by (simp add: getUserByEmail_def)

lemma ice_fields:
  "hostIceCandidates (statusUpdateData st now s) = hostIceCandidates s"
  "clientIceCandidates (statusUpdateData st now s) = clientIceCandidates s"
  "hostIceCandidates (setNotificationSent t s) = hostIceCandidates s"
  "clientIceCandidates (setNotificationSent t s) = clientIceCandidates s"
  "hostIceCandidates (setSignaling d s)
     = (case set_hostIceCandidates d of None \<Rightarrow> hostIceCandidates s | Some v \<Rightarrow> v)"
  "clientIceCandidates (setSignaling d s)
     = (case set_clientIceCandidates d of None \<Rightarrow> clientIceCandidates s | Some v \<Rightarrow> v)"
  by (simp_all add: statusUpdateData_def setNotificationSent_def setSignaling_def)

lemma side_not:
  "(f \<noteq> Host) = (f = Client)"
  "(f \<noteq> Client) = (f = Host)"
  by (cases f; simp)+

lemma noData_ice:
  "set_hostIceCandidates noData = None"
  "set_clientIceCandidates noData = None"
  by (simp_all add: noData_def)

section \<open>Expiry at join\<close>

text \<open>
  C1. For a stored session whose \<open>expiresAt\<close> is earlier than the current
  time, \<open>signaling.join\<close> fails with "Session has expired" (the Expired
  error), whatever the stored status and whatever the password; it has only
  read the session.
\<close>

theorem join_expired:
  assumes "dbUp w" and "sessions w sid = Some s" and "expiresAt s < now"
  shows "signaling_join e c now sid password name w =
           (Inl SessionExpired, called (CGetSessionBySessionId sid) w)"
  using assms by (simp add: signaling_join_def)

theorem join_expired_witness:
  "dbUp exWorld \<and> sessions exWorld ''a1b2c3'' = Some exSession \<and> expiresAt exSession < 2000
   \<and> fst (signaling_join exEnv exCtx 2000 ''a1b2c3'' ''CAFE0001'' None exWorld)
       = Inl SessionExpired"
  using join_expired [of exWorld "''a1b2c3''" exSession 2000 exEnv exCtx "''CAFE0001''" None]
  by (simp add: exWorld_def exSession_def)

section \<open>Ownership\<close>

text \<open>
  C4 as stated fails: on the example session, owned by user 7, \<open>session.end\<close>,
  \<open>signaling.sendOffer\<close>, \<open>signaling.getOffer\<close> and
  \<open>signaling.sendAnswerFromHost\<close> called by user 8 do not fail with
  "Unauthorized" but with "Session not found or unauthorized", the error they
  also throw for an unknown session.
\<close>

theorem non_owner_error_counterexample:
  "dbUp exWorld \<and> sessions exWorld ''a1b2c3'' = Some exSession
   \<and> hostUserId exSession = Some 7
   \<and> fst (session_end 8 10 ''a1b2c3'' exWorld) = Inl SessionNotFoundOrUnauthorized
   \<and> fst (session_end 8 10 ''a1b2c3'' exWorld) \<noteq> Inl Unauthorized
   \<and> fst (signaling_sendOffer 8 ''a1b2c3'' ''OFFER2'' exWorld) \<noteq> Inl Unauthorized
   \<and> fst (signaling_getOffer 8 ''a1b2c3'' exWorld) \<noteq> Inl Unauthorized
   \<and> fst (signaling_sendAnswerFromHost 8 10 ''a1b2c3'' (Some JNull) None exWorld)
       \<noteq> Inl Unauthorized"
  by (simp add: session_end_def signaling_sendOffer_def signaling_getOffer_def
      signaling_sendAnswerFromHost_def exWorld_def exSession_def)

text \<open>
  C4, amended. For an existing session and an authenticated caller whose id
  differs from the session's \<open>hostUserId\<close>, \<open>session.get\<close> fails with
  "Unauthorized", and each of \<open>session.end\<close>, \<open>signaling.sendOffer\<close>,
  \<open>signaling.getOffer\<close> and \<open>signaling.sendAnswerFromHost\<close> fails with the
  combined error "Session not found or unauthorized", whatever the status and
  expiry of the session; each has only read the session.
\<close>

theorem non_owner_rejected:
  assumes "dbUp w" and "sessions w sid = Some s" and "hostUserId s \<noteq> Some uid"
  shows "session_get uid sid w = (Inl Unauthorized, called (CGetSessionBySessionId sid) w)
       \<and> session_end uid now sid w
           = (Inl SessionNotFoundOrUnauthorized, called (CGetSessionBySessionId sid) w)
       \<and> signaling_sendOffer uid sid offer w
           = (Inl SessionNotFoundOrUnauthorized, called (CGetSessionBySessionId sid) w)
       \<and> signaling_getOffer uid sid w
           = (Inl SessionNotFoundOrUnauthorized, called (CGetSessionBySessionId sid) w)
       \<and> signaling_sendAnswerFromHost uid now sid answer ice w
           = (Inl SessionNotFoundOrUnauthorized, called (CGetSessionBySessionId sid) w)"
  using assms
  by (simp add: session_get_def session_end_def signaling_sendOffer_def signaling_getOffer_def
      signaling_sendAnswerFromHost_def)

theorem non_owner_rejected_witness:
  "dbUp exWorld \<and> sessions exWorld ''a1b2c3'' = Some exSession
   \<and> hostUserId exSession \<noteq> Some 8 \<and> status exSession = Waiting \<and> expiresAt exSession > 10
   \<and> fst (session_get 8 ''a1b2c3'' exWorld) = Inl Unauthorized
   \<and> fst (session_end 8 10 ''a1b2c3'' exWorld) = Inl SessionNotFoundOrUnauthorized
   \<and> fst (signaling_sendOffer 8 ''a1b2c3'' ''OFFER2'' exWorld) = Inl SessionNotFoundOrUnauthorized
   \<and> fst (signaling_getOffer 8 ''a1b2c3'' exWorld) = Inl SessionNotFoundOrUnauthorized
   \<and> fst (signaling_sendAnswerFromHost 8 10 ''a1b2c3'' (Some JNull) None exWorld)
       = Inl SessionNotFoundOrUnauthorized"
  using non_owner_rejected [of exWorld "''a1b2c3''" exSession 8 10 "''OFFER2''" "Some JNull" None]
  by (simp add: exWorld_def exSession_def)

section \<open>Role masking\<close>

text \<open>
  C5. A successful \<open>signaling.getSignalingData\<close> call with role client returns
  null for \<open>clientAnswer\<close> and \<open>clientIceCandidates\<close>, and a successful call
  with role host returns null for \<open>hostOffer\<close> and \<open>hostIceCandidates\<close>,
  whatever the stored session holds.
\<close>

theorem getSignalingData_masks:
  "(fst (signaling_getSignalingData e c sid password Client w) = Inr out
      \<longrightarrow> sd_clientAnswer out = None \<and> sd_clientIceCandidates out = None)
   \<and> (fst (signaling_getSignalingData e c sid password Host w) = Inr out
      \<longrightarrow> sd_hostOffer out = None \<and> sd_hostIceCandidates out = None)"
  by (auto simp add: signaling_getSignalingData_def split: option.splits if_splits)

theorem getSignalingData_masks_witness:
  "clientAnswer exSession = Some ''ANSWER1'' \<and> clientIceCandidates exSession = Some [JStr ''c1'']
   \<and> hostOffer exSession = Some ''OFFER1'' \<and> hostIceCandidates exSession = Some [JStr ''h1'']
   \<and> fst (signaling_getSignalingData exEnv exCtx ''a1b2c3'' (Some ''CAFE0001'') Client exWorld)
       = Inr \<lparr>sd_status = Waiting, sd_hostOffer = Some ''OFFER1'', sd_clientAnswer = None,
               sd_hostIceCandidates = Some [JStr ''h1''], sd_clientIceCandidates = None,
               sd_clientName = None, sd_autoRecord = Some False\<rparr>
   \<and> fst (signaling_getSignalingData exEnv exHostCtx ''a1b2c3'' None Host exWorld)
       = Inr \<lparr>sd_status = Waiting, sd_hostOffer = None, sd_clientAnswer = Some ''ANSWER1'',
               sd_hostIceCandidates = None, sd_clientIceCandidates = Some [JStr ''c1''],
               sd_clientName = None, sd_autoRecord = Some False\<rparr>"
  using getSignalingData_masks [of exEnv exCtx "''a1b2c3''" "Some ''CAFE0001''" exWorld
      "\<lparr>sd_status = Waiting, sd_hostOffer = Some ''OFFER1'', sd_clientAnswer = None,
               sd_hostIceCandidates = Some [JStr ''h1''], sd_clientIceCandidates = None,
               sd_clientName = None, sd_autoRecord = Some False\<rparr>"]
    getSignalingData_masks [of exEnv exHostCtx "''a1b2c3''" None exWorld
      "\<lparr>sd_status = Waiting, sd_hostOffer = None, sd_clientAnswer = Some ''ANSWER1'',
               sd_hostIceCandidates = None, sd_clientIceCandidates = Some [JStr ''c1''],
               sd_clientName = None, sd_autoRecord = Some False\<rparr>"]
  by (simp add: signaling_getSignalingData_def exWorld_def exSession_def exEnv_def exCtx_def
      exHostCtx_def exHost_def verifyPassword_def hashPassword_def truthy_str_def
      userIsNotHost_def)

section \<open>Operations on a session past its expiry\<close>




section \<open>Credentials of sendIceCandidate\<close>

text \<open>
  What the handler does check: a client's non-empty password that does not
  verify, and a host call by anyone but the owner, are refused before any
  write.
\<close>

lemma sendIceCandidate_guards:
  assumes "dbUp w" and "sessions w sid = Some s"
  shows "pw \<noteq> [] \<Longrightarrow> \<not> verifyPassword e pw (passwordHash s) \<Longrightarrow>
           signaling_sendIceCandidate e c sid (Some pw) cand Client w
             = (Inl InvalidPassword, called (CGetSessionBySessionId sid) w)"
    and "userIsNotHost c s \<Longrightarrow>
           signaling_sendIceCandidate e c sid password cand Host w
             = (Inl Unauthorized, called (CGetSessionBySessionId sid) w)"
  using assms by (simp_all add: signaling_sendIceCandidate_def truthy_str_def)

text \<open>
  C6. The claim asks that a client call of \<open>signaling.sendIceCandidate\<close> that
  supplies no password fail with "Invalid password" and leave the session
  unchanged. The handler verifies the password only when one is supplied: on
  the stored session of the example, a client call without a password succeeds
  and appends its candidate to the client's list.
\<close>

theorem sendIceCandidate_client_without_password:
  "fst (signaling_sendIceCandidate exEnv exCtx ''a1b2c3'' None ''cand'' Client exWorld)
     = Inr SuccessTrue
   \<and> map_option clientIceCandidates
        (sessions (snd (signaling_sendIceCandidate exEnv exCtx ''a1b2c3'' None ''cand'' Client
           exWorld)) ''a1b2c3'') = Some (Some [JStr ''c1'', JStr ''cand''])"
  by (simp add: signaling_sendIceCandidate_def exWorld_def exSession_def truthy_str_def
      setSignaling_def noData_def)

section \<open>The ICE candidate lists\<close>

text \<open>
  C7 as stated fails: \<open>signaling.sendOfferFromClient\<close> without candidates
  replaces the stored client list \<open>[c1]\<close> by null.
\<close>

theorem sendOfferFromClient_replaces_ice_counterexample:
  "map_option clientIceCandidates (sessions exWorld ''a1b2c3'') = Some (Some [JStr ''c1''])
   \<and> fst (signaling_sendOfferFromClient 10 ''a1b2c3'' (Some (JStr ''OFFER'')) None exWorld)
       = Inr SuccessTrue
   \<and> map_option clientIceCandidates
        (sessions (snd (signaling_sendOfferFromClient 10 ''a1b2c3'' (Some (JStr ''OFFER'')) None
           exWorld)) ''a1b2c3'') = Some None"
  by (simp add: signaling_sendOfferFromClient_def exWorld_def exSession_def
      setSignaling_def noData_def statusUpdateData_def)

lemma exec_client_ice_kept:
  assumes "\<not> (writesClientIce rq \<and> reqSid rq = k \<and> succeeded e rq w)"
  shows "map_option clientIceCandidates (sessions (exec e rq w) k)
           = map_option clientIceCandidates (sessions w k)"
  using assms
  by (cases rq)
     (auto simp add: signaling_join_def signaling_sendOffer_def signaling_sendAnswer_def
        signaling_sendIceCandidate_def signaling_sendOfferFromClient_def
        signaling_sendAnswerFromHost_def signaling_clientDisconnect_def
        signaling_updateStatus_def session_end_def Let_def ice_fields side_not noData_ice
        option.map_comp comp_def case_prod_beta
        split: option.splits if_splits)

lemma exec_host_ice_kept:
  assumes "\<not> (writesHostIce rq \<and> reqSid rq = k \<and> succeeded e rq w)"
  shows "map_option hostIceCandidates (sessions (exec e rq w) k)
           = map_option hostIceCandidates (sessions w k)"
  using assms
  by (cases rq)
     (auto simp add: signaling_join_def signaling_sendOffer_def signaling_sendAnswer_def
        signaling_sendIceCandidate_def signaling_sendOfferFromClient_def
        signaling_sendAnswerFromHost_def signaling_clientDisconnect_def
        signaling_updateStatus_def session_end_def Let_def ice_fields side_not noData_ice
        option.map_comp comp_def case_prod_beta
        split: option.splits if_splits)

lemma sendIceCandidate_appends:
  assumes "sessions w sid = Some s"
    and "fst (signaling_sendIceCandidate e c sid password cand from w) = Inr r"
  shows "map_option clientIceCandidates
           (sessions (snd (signaling_sendIceCandidate e c sid password cand from w)) sid)
         = Some (if from = Client then Some (iceList (clientIceCandidates s) @ [JStr cand])
                 else clientIceCandidates s)"
    and "map_option hostIceCandidates
           (sessions (snd (signaling_sendIceCandidate e c sid password cand from w)) sid)
         = Some (if from = Host then Some (iceList (hostIceCandidates s) @ [JStr cand])
                 else hostIceCandidates s)"
  using assms
  by (cases "from";
      auto simp add: signaling_sendIceCandidate_def Let_def iceList_def ice_fields noData_ice
        split: if_splits option.splits)+

lemma overwrite_client:
  assumes "sessions w sid = Some s"
    and "fst (signaling_sendOfferFromClient now sid offer ice w) = Inr r"
  shows "map_option clientIceCandidates
           (sessions (snd (signaling_sendOfferFromClient now sid offer ice w)) sid) = Some ice"
  using assms
  by (auto simp add: signaling_sendOfferFromClient_def Let_def ice_fields noData_ice split: if_splits option.splits)

lemma overwrite_host:
  assumes "sessions w sid = Some s"
    and "fst (signaling_sendAnswerFromHost uid now sid answer ice w) = Inr r"
  shows "map_option hostIceCandidates
           (sessions (snd (signaling_sendAnswerFromHost uid now sid answer ice w)) sid) = Some ice"
  using assms
  by (auto simp add: signaling_sendAnswerFromHost_def Let_def ice_fields noData_ice split: if_splits option.splits)

text \<open>
  C7, amended. Every successful \<open>sendIceCandidate\<close> call appends exactly one
  candidate to the list of the submitting side (an absent list counting as
  empty) and leaves the other side's list as it was. No exposed operation
  replaces or clears an ICE list of any session, with two exceptions: a
  successful \<open>sendOfferFromClient\<close> overwrites \<open>clientIceCandidates\<close> of the
  session it names, and a successful \<open>sendAnswerFromHost\<close> overwrites
  \<open>hostIceCandidates\<close> of the session it names, with the list given in the
  call (null when none is given). A call that is refused, and a call that
  names another session, changes no list.
\<close>

theorem ice_candidate_lists:
  "(sessions w sid = Some s
      \<and> fst (signaling_sendIceCandidate e c sid password cand from w) = Inr r \<longrightarrow>
      map_option clientIceCandidates
        (sessions (snd (signaling_sendIceCandidate e c sid password cand from w)) sid)
        = Some (if from = Client then Some (iceList (clientIceCandidates s) @ [JStr cand])
                else clientIceCandidates s)
      \<and> map_option hostIceCandidates
          (sessions (snd (signaling_sendIceCandidate e c sid password cand from w)) sid)
        = Some (if from = Host then Some (iceList (hostIceCandidates s) @ [JStr cand])
                else hostIceCandidates s))
   \<and> (\<not> (writesClientIce rq \<and> reqSid rq = k \<and> succeeded e rq w) \<longrightarrow>
        map_option clientIceCandidates (sessions (exec e rq w) k)
          = map_option clientIceCandidates (sessions w k))
   \<and> (\<not> (writesHostIce rq \<and> reqSid rq = k \<and> succeeded e rq w) \<longrightarrow>
        map_option hostIceCandidates (sessions (exec e rq w) k)
          = map_option hostIceCandidates (sessions w k))
   \<and> (sessions w sid = Some s
        \<and> fst (signaling_sendOfferFromClient now sid offer ice w) = Inr r' \<longrightarrow>
        map_option clientIceCandidates
          (sessions (snd (signaling_sendOfferFromClient now sid offer ice w)) sid) = Some ice)
   \<and> (sessions w sid = Some s
        \<and> fst (signaling_sendAnswerFromHost uid now sid answer ice w) = Inr r' \<longrightarrow>
        map_option hostIceCandidates
          (sessions (snd (signaling_sendAnswerFromHost uid now sid answer ice w)) sid) = Some ice)"
  using sendIceCandidate_appends [of w sid s e c password cand "from" r]
    exec_client_ice_kept [of rq k e w] exec_host_ice_kept [of rq k e w]
    overwrite_client [of w sid s now offer ice r']
    overwrite_host [of w sid s uid now answer ice r']
  by blast

theorem ice_candidate_lists_witness:
  "sessions exWorld ''a1b2c3'' = Some exSession
   \<and> fst (signaling_sendIceCandidate exEnv exCtx ''a1b2c3'' (Some ''CAFE0001'') ''c2'' Client
        exWorld) = Inr SuccessTrue
   \<and> map_option clientIceCandidates
        (sessions (snd (signaling_sendIceCandidate exEnv exCtx ''a1b2c3'' (Some ''CAFE0001'')
           ''c2'' Client exWorld)) ''a1b2c3'') = Some (Some [JStr ''c1'', JStr ''c2''])
   \<and> map_option hostIceCandidates
        (sessions (snd (signaling_sendIceCandidate exEnv exCtx ''a1b2c3'' (Some ''CAFE0001'')
           ''c2'' Client exWorld)) ''a1b2c3'') = Some (Some [JStr ''h1''])
   \<and> \<not> succeeded exEnv (ReqSendAnswerFromHost 8 10 ''a1b2c3'' (Some JNull) None) exWorld
   \<and> map_option hostIceCandidates
        (sessions (exec exEnv (ReqSendAnswerFromHost 8 10 ''a1b2c3'' (Some JNull) None) exWorld)
           ''a1b2c3'') = Some (Some [JStr ''h1''])
   \<and> \<not> succeeded exEnv (ReqSendOfferFromClient 10 ''ffffff'' (Some JNull) None) exWorld
   \<and> map_option clientIceCandidates
        (sessions (exec exEnv (ReqSendOfferFromClient 10 ''ffffff'' (Some JNull) None) exWorld)
           ''a1b2c3'') = Some (Some [JStr ''c1''])
   \<and> fst (signaling_sendOfferFromClient 10 ''a1b2c3'' (Some JNull) (Some [JStr ''c9''])
        exWorld) = Inr SuccessTrue
   \<and> map_option clientIceCandidates
        (sessions (snd (signaling_sendOfferFromClient 10 ''a1b2c3'' (Some JNull)
           (Some [JStr ''c9'']) exWorld)) ''a1b2c3'') = Some (Some [JStr ''c9''])
   \<and> fst (signaling_sendAnswerFromHost 7 10 ''a1b2c3'' (Some JNull) (Some [JStr ''c9''])
        exWorld) = Inr SuccessTrue
   \<and> map_option hostIceCandidates
        (sessions (snd (signaling_sendAnswerFromHost 7 10 ''a1b2c3'' (Some JNull)
           (Some [JStr ''c9'']) exWorld)) ''a1b2c3'') = Some (Some [JStr ''c9''])"
  using ice_candidate_lists [of exWorld "''a1b2c3''" exSession exEnv exCtx "Some ''CAFE0001''"
      "''c2''" Client SuccessTrue "ReqSendAnswerFromHost 8 10 ''a1b2c3'' (Some JNull) None"
      "''a1b2c3''" 10 "Some JNull" "Some [JStr ''c9'']" SuccessTrue 7 "Some JNull"]
    ice_candidate_lists [of exWorld "''a1b2c3''" exSession exEnv exCtx "Some ''CAFE0001''"
      "''c2''" Client SuccessTrue "ReqSendOfferFromClient 10 ''ffffff'' (Some JNull) None"
      "''a1b2c3''" 10 "Some JNull" "Some [JStr ''c9'']" SuccessTrue 7 "Some JNull"]
  by (simp add: exWorld_def exSession_def exEnv_def exCtx_def iceList_def
      signaling_sendIceCandidate_def signaling_sendOfferFromClient_def
      signaling_sendAnswerFromHost_def verifyPassword_def hashPassword_def truthy_str_def)

section \<open>Status after a terminal state\<close>









section \<open>End notification\<close>

text \<open>
  C8 as stated fails: for a session whose \<open>endNotificationSent\<close> flag is
  already true (here after an earlier end), two \<open>session.end\<close> calls by the
  owner dispatch no notification and never call \<open>markNotificationSent\<close>.
\<close>

theorem end_twice_counterexample:
  "dbUp exEndedWorld
   \<and> map_option hostUserId (sessions exEndedWorld ''a1b2c3'') = Some (Some 7)
   \<and> fst (session_end 7 600 ''a1b2c3'' exEndedWorld) = Inr SuccessTrue
   \<and> fst (session_end 7 700 ''a1b2c3'' (snd (session_end 7 600 ''a1b2c3'' exEndedWorld)))
       = Inr SuccessTrue
   \<and> notifications (snd (session_end 7 700 ''a1b2c3''
        (snd (session_end 7 600 ''a1b2c3'' exEndedWorld)))) = []
   \<and> countCalls (CMarkNotificationSent ''a1b2c3'' End)
        (snd (session_end 7 700 ''a1b2c3'' (snd (session_end 7 600 ''a1b2c3'' exEndedWorld)))) = 0"
  by (simp add: session_end_def exEndedWorld_def exWorld_def exSession_def truthy_def
      countCalls_def statusUpdateData_def)

lemma session_end_owner:
  assumes "dbUp w" and "sessions w sid = Some s" and "hostUserId s = Some uid"
  shows "fst (session_end uid now sid w) = Inr SuccessTrue"
    and "dbUp (snd (session_end uid now sid w))"
    and "sessions (snd (session_end uid now sid w)) sid
           = Some (if truthy (endNotificationSent s)
                   then statusUpdateData Disconnected now s
                   else setNotificationSent End (statusUpdateData Disconnected now s))"
    and "notifications (snd (session_end uid now sid w))
           = (if truthy (endNotificationSent s) then notifications w
              else notifications w
                   @ [(''Remote Session Ended'',
                       ''Session '' @ sid @ '' has been ended by the host.'')])"
    and "countCalls (CMarkNotificationSent sid End) (snd (session_end uid now sid w))
           = (if truthy (endNotificationSent s)
              then countCalls (CMarkNotificationSent sid End) w
              else countCalls (CMarkNotificationSent sid End) w + 1)"
  using assms by (simp_all add: session_end_def Let_def countCalls_def)

text \<open>
  C8, amended. For every stored session whose \<open>endNotificationSent\<close> flag is
  not yet true, two \<open>session.end\<close> calls in sequence by the owning host
  dispatch exactly one end notification and call
  \<open>markNotificationSent(sessionId, 'end')\<close> exactly once: the first call sends
  the notification and sets the flag, the second one sends nothing.
\<close>

theorem end_twice_one_notification:
  assumes "dbUp w" and "sessions w sid = Some s" and "hostUserId s = Some uid"
    and "\<not> truthy (endNotificationSent s)"
  shows "fst (session_end uid t1 sid w) = Inr SuccessTrue
       \<and> fst (session_end uid t2 sid (snd (session_end uid t1 sid w))) = Inr SuccessTrue
       \<and> notifications (snd (session_end uid t1 sid w))
           = notifications w
             @ [(''Remote Session Ended'', ''Session '' @ sid @ '' has been ended by the host.'')]
       \<and> map_option endNotificationSent (sessions (snd (session_end uid t1 sid w)) sid)
           = Some (Some True)
       \<and> notifications (snd (session_end uid t2 sid (snd (session_end uid t1 sid w))))
           = notifications (snd (session_end uid t1 sid w))
       \<and> countCalls (CMarkNotificationSent sid End) (snd (session_end uid t1 sid w))
           = countCalls (CMarkNotificationSent sid End) w + 1
       \<and> countCalls (CMarkNotificationSent sid End)
            (snd (session_end uid t2 sid (snd (session_end uid t1 sid w))))
           = countCalls (CMarkNotificationSent sid End) w + 1"
proof -
  let ?w1 = "snd (session_end uid t1 sid w)"
  let ?s1 = "setNotificationSent End (statusUpdateData Disconnected t1 s)"
  note first = session_end_owner [OF assms(1-3), of t1]
  have up: "dbUp ?w1" by (rule first(2))
  have s1: "sessions ?w1 sid = Some ?s1" using first(3) assms(4) by simp
  have h1: "hostUserId ?s1 = Some uid" using assms(3) by simp
  have f1: "truthy (endNotificationSent ?s1)" by (simp add: truthy_def)
  note second = session_end_owner [OF up s1 h1, of t2]
  show ?thesis
    using first(1,4,5) second(1,4,5) s1 assms(4) f1 by simp
qed

theorem end_twice_one_notification_witness:
  "dbUp exWorld \<and> sessions exWorld ''a1b2c3'' = Some exSession
   \<and> hostUserId exSession = Some 7 \<and> \<not> truthy (endNotificationSent exSession)
   \<and> notifications exWorld = []
   \<and> notifications (snd (session_end 7 700 ''a1b2c3'' (snd (session_end 7 600 ''a1b2c3'' exWorld))))
       = [(''Remote Session Ended'', ''Session a1b2c3 has been ended by the host.'')]
   \<and> countCalls (CMarkNotificationSent ''a1b2c3'' End)
        (snd (session_end 7 700 ''a1b2c3'' (snd (session_end 7 600 ''a1b2c3'' exWorld)))) = 1"
  using end_twice_one_notification [of exWorld "''a1b2c3''" exSession 7 600 700]
  by (simp add: exWorld_def exSession_def truthy_def countCalls_def)

section \<open>Calendar bridge\<close>

text \<open>
  An input that fails the schema is rejected before the handler runs, and
  nothing is read or written.
\<close>

lemma createMeeting_bad_input:
  "\<not> createMeetingInputOk e hostEmail minutes \<Longrightarrow>
     calendar_createMeeting e now newId newPassword apiKey hostEmail minutes evId evSrc w
       = (Inl BadRequest, w)"
  by (simp add: calendar_createMeeting_def)

text \<open>
  C9. On an input that passes its schema, \<open>calendar.createMeeting\<close> with an
  \<open>apiKey\<close> different from the derived key fails with "Invalid API key" and
  leaves the world as it was, the record of database calls included. With the
  right key and a \<open>hostEmail\<close> that \<open>getUserByEmail\<close> resolves to a user, it
  creates the session (hash of the new password, status waiting, owned by
  that user) and returns \<open>joinUrl = base/join/sessionId?p=password\<close> and
  \<open>hostUrl = base/viewer/sessionId\<close>, with the new plaintext password. The
  identifier drawn for the new session is one not yet in the table, as the
  unique index asks of every insert.
\<close>

theorem createMeeting_key_and_urls:
  assumes "createMeetingInputOk e hostEmail minutes"
  shows "(apiKey \<noteq> getCalendarApiKey e \<longrightarrow>
      calendar_createMeeting e now newId newPassword apiKey hostEmail minutes evId evSrc w
        = (Inl InvalidApiKey, w))
   \<and> (apiKey = getCalendarApiKey e \<and> fst (getUserByEmail hostEmail w) = Some host
       \<and> sessions w newId = None \<longrightarrow>
      fst (calendar_createMeeting e now newId newPassword apiKey hostEmail minutes evId evSrc w)
        = Inr \<lparr>cm_success = True, cm_sessionId = newId, cm_password = newPassword,
                cm_joinUrl = baseUrl e @ ''/join/'' @ newId @ ''?p='' @ newPassword,
                cm_hostUrl = baseUrl e @ ''/viewer/'' @ newId,
                cm_expiresAt = now + expiresInMinutesOrDefault minutes * 60 * 1000\<rparr>
      \<and> map_option (\<lambda>r. (sessionId r, passwordHash r, status r, hostUserId r, expiresAt r))
          (sessions (snd (calendar_createMeeting e now newId newPassword apiKey hostEmail
             minutes evId evSrc w)) newId)
        = Some (newId, hashPassword e newPassword, Waiting, Some (user_id host),
                now + expiresInMinutesOrDefault minutes * 60 * 1000))"
  using assms
  by (auto simp add: calendar_createMeeting_def createCalendarSession_def Let_def
      split: if_splits)

theorem createMeeting_key_and_urls_witness:
  "createMeetingInputOk exEnv ''host@example.com'' (Some 120)
   \<and> ''wrong-key'' \<noteq> getCalendarApiKey exEnv
   \<and> calendar_createMeeting exEnv 5000 ''d4e5f6'' ''BEEF0002'' ''wrong-key''
        ''host@example.com'' (Some 120) None None exWorld = (Inl InvalidApiKey, exWorld)
   \<and> ''#calendar-api-secret'' = getCalendarApiKey exEnv
   \<and> fst (getUserByEmail ''host@example.com'' exWorld) = Some exHost
   \<and> sessions exWorld ''d4e5f6'' = None
   \<and> fst (calendar_createMeeting exEnv 5000 ''d4e5f6'' ''BEEF0002'' ''#calendar-api-secret''
        ''host@example.com'' (Some 120) None None exWorld)
       = Inr \<lparr>cm_success = True, cm_sessionId = ''d4e5f6'', cm_password = ''BEEF0002'',
               cm_joinUrl = ''https://connect.mercuryholdings.co/join/d4e5f6?p=BEEF0002'',
               cm_hostUrl = ''https://connect.mercuryholdings.co/viewer/d4e5f6'',
               cm_expiresAt = 7205000\<rparr>"
  using createMeeting_key_and_urls [of exEnv "''host@example.com''" "Some 120" "''wrong-key''"
      5000 "''d4e5f6''" "''BEEF0002''" None None exWorld exHost]
    createMeeting_key_and_urls [of exEnv "''host@example.com''" "Some 120"
      "''#calendar-api-secret''" 5000 "''d4e5f6''" "''BEEF0002''" None None exWorld exHost]
  by (simp add: getCalendarApiKey_def baseUrl_def truthy_str_def exEnv_def exWorld_def
      exHost_def createMeetingInputOk_def expiresInMinutesOrDefault_def)

section \<open>Status updates without a credential\<close>

text \<open>
  C10. \<open>signaling.updateStatus\<close> reads neither the password nor the caller:
  for every stored session it succeeds and sets the status to connected or to
  disconnected as asked; it fails only with "Session not found", when the
  lookup finds no session; and setting disconnected also writes the
  \<open>disconnected\<close> log entry and runs the end-notification path (one dispatch
  and the flag set, unless the flag was set already).
\<close>

theorem updateStatus_needs_no_credential:
  "(dbUp w \<and> sessions w sid = Some s \<longrightarrow>
      fst (signaling_updateStatus c now sid password d w) = Inr SuccessTrue
      \<and> map_option status (sessions (snd (signaling_updateStatus c now sid password d w)) sid)
          = Some (if d then Disconnected else Connected)
      \<and> (d \<longrightarrow>
           sessionLogs (snd (signaling_updateStatus c now sid password d w))
             = sessionLogs w @ [\<lparr>log_sessionId = id' s, log_activityType = A_disconnected,
                                  log_details = Some (JObj []), log_createdAt = now\<rparr>]
           \<and> notifications (snd (signaling_updateStatus c now sid password d w))
             = (if truthy (endNotificationSent s) then notifications w
                else notifications w
                     @ [(''Remote Session Ended'',
                         ''Session '' @ sid @ '' has been disconnected.'')])
           \<and> map_option endNotificationSent
                (sessions (snd (signaling_updateStatus c now sid password d w)) sid)
             = Some (if truthy (endNotificationSent s) then endNotificationSent s
                     else Some True)))
   \<and> (fst (getSessionBySessionId sid w) = None \<longrightarrow>
        signaling_updateStatus c now sid password d w
          = (Inl SessionNotFound, called (CGetSessionBySessionId sid) w))
   \<and> (fst (signaling_updateStatus c now sid password d w) = Inr SuccessTrue
        \<or> fst (signaling_updateStatus c now sid password d w) = Inl SessionNotFound)"
  by (auto simp add: signaling_updateStatus_def Let_def statusUpdateData_def
      setNotificationSent_def split: option.splits)

theorem updateStatus_needs_no_credential_witness:
  "ctx_user exCtx = None \<and> dbUp exWorld \<and> sessions exWorld ''a1b2c3'' = Some exSession
   \<and> fst (signaling_updateStatus exCtx 10 ''a1b2c3'' None True exWorld) = Inr SuccessTrue
   \<and> map_option status
        (sessions (snd (signaling_updateStatus exCtx 10 ''a1b2c3'' None True exWorld)) ''a1b2c3'')
       = Some Disconnected
   \<and> notifications (snd (signaling_updateStatus exCtx 10 ''a1b2c3'' None True exWorld))
       = [(''Remote Session Ended'', ''Session a1b2c3 has been disconnected.'')]
   \<and> map_option status
        (sessions (snd (signaling_updateStatus exCtx 10 ''a1b2c3'' None False exEndedWorld))
           ''a1b2c3'')
       = Some Connected
   \<and> fst (getSessionBySessionId ''ffffff'' exWorld) = None
   \<and> fst (signaling_updateStatus exCtx 10 ''ffffff'' None True exWorld) = Inl SessionNotFound"
  using updateStatus_needs_no_credential [of exWorld "''a1b2c3''" exSession exCtx 10 None True]
    updateStatus_needs_no_credential [of exEndedWorld "''a1b2c3''"
      "exSession\<lparr>status := Disconnected, endedAt := Some 500,
                  endNotificationSent := Some True\<rparr>" exCtx 10 None False]
    updateStatus_needs_no_credential [of exWorld "''ffffff''" exSession exCtx 10 None True]
  by (simp add: exWorld_def exEndedWorld_def exSession_def exCtx_def truthy_def)

end
